theory Spec2Isabelle
  imports Main "HOL-Library.Sublist"
begin

section \<open>The language's primitives used by the two scripts\<close>

text \<open>
  The packaging pipeline is written in the CMake language: \<^verbatim>\<open>cmake/AppImage.cmake\<close>
  defines the build rule and \<^verbatim>\<open>cmake/LinuxDeployAppImage.cmake\<close> is the script the
  rule runs. Every value of the language is a string; a list is a string whose elements
  are separated by semicolons. The commands the scripts call are modelled here as
  functions on strings.
\<close>

definition semicolon :: char where
  "semicolon = CHR '';''"

definition backslash :: char where
  "backslash = CHR 0x5C"

definition dquote :: char where
  "dquote = CHR 0x22"

text \<open>
  \<^verbatim>\<open>string(REPLACE match replace out input)\<close>: every occurrence of the match string
  is replaced, scanning from the left and resuming after each occurrence; the replacement
  text is not scanned again. An empty match string leaves the input as it is.
\<close>

fun string_REPLACE :: "string \<Rightarrow> string \<Rightarrow> string \<Rightarrow> string" where
  "string_REPLACE m r [] = []"
| "string_REPLACE m r (c # cs) =
     (if m \<noteq> [] \<and> prefix m (c # cs)
      then r @ string_REPLACE m r (drop (length m) (c # cs))
      else c # string_REPLACE m r cs)"

text \<open>Joining strings with a glue, as \<^verbatim>\<open>string(JOIN)\<close> and \<^verbatim>\<open>set\<close> do.\<close>

fun cmJoin :: "string list \<Rightarrow> string \<Rightarrow> string" where
  "cmJoin [] glue = []"
| "cmJoin [x] glue = x"
| "cmJoin (x # y # ys) glue = x @ glue @ cmJoin (y # ys) glue"

text \<open>
  Splitting a list string into its elements. The string is broken at every semicolon
  that is neither escaped by a backslash nor nested in square brackets; an escaped
  semicolon loses its backslash and stays in the element. Empty elements are kept only
  when \<^verbatim>\<open>emptyArgs\<close> is set. The loop carries the bracket depth and the element read
  so far.
\<close>

fun cmExpandList_loop :: "bool \<Rightarrow> int \<Rightarrow> string \<Rightarrow> string \<Rightarrow> string list" where
  "cmExpandList_loop emptyArgs squareNesting newArg [] =
     (if newArg \<noteq> [] \<or> emptyArgs then [newArg] else [])"
| "cmExpandList_loop emptyArgs squareNesting newArg (c # cs) =
     (if c = backslash \<and> cs \<noteq> [] \<and> hd cs = semicolon
        then cmExpandList_loop emptyArgs squareNesting (newArg @ [semicolon]) (tl cs)
      else if c = CHR ''[''
        then cmExpandList_loop emptyArgs (squareNesting + 1) (newArg @ [c]) cs
      else if c = CHR '']''
        then cmExpandList_loop emptyArgs (squareNesting - 1) (newArg @ [c]) cs
      else if c = semicolon \<and> squareNesting = 0
        then (if newArg \<noteq> [] \<or> emptyArgs then [newArg] else [])
             @ cmExpandList_loop emptyArgs squareNesting [] cs
      else cmExpandList_loop emptyArgs squareNesting (newArg @ [c]) cs)"

definition cmExpandList :: "bool \<Rightarrow> string \<Rightarrow> string list" where
  "cmExpandList emptyArgs arg =
     (if \<not> emptyArgs \<and> arg = [] then []
      else if semicolon \<notin> set arg then [arg]
      else cmExpandList_loop emptyArgs 0 [] arg)"

text \<open>
  An unquoted command argument is evaluated and then divided into list elements; each
  non-empty element is one argument of the command. A quoted argument is always exactly
  one argument and is written in the model as the string itself.
\<close>

definition unquoted :: "string \<Rightarrow> string list" where
  "unquoted arg = cmExpandList False arg"

text \<open>\<^verbatim>\<open>set(var a b c)\<close> with several arguments stores them joined by semicolons.\<close>

definition cmake_set :: "string list \<Rightarrow> string" where
  "cmake_set args = cmJoin args [semicolon]"

text \<open>
  \<^verbatim>\<open>list(APPEND var element)\<close>: the element is added after a semicolon, with no
  escaping; an empty list becomes the element.
\<close>

definition list_APPEND :: "string \<Rightarrow> string \<Rightarrow> string" where
  "list_APPEND listString element =
     (if listString = [] then element else listString @ [semicolon] @ element)"

text \<open>
  \<^verbatim>\<open>foreach(x IN LISTS var)\<close> visits the elements of the list, empty ones included.
\<close>

definition foreach_IN_LISTS :: "string \<Rightarrow> string list" where
  "foreach_IN_LISTS listString = (if listString = [] then [] else cmExpandList True listString)"

text \<open>
  \<^verbatim>\<open>if(var)\<close>: true when the variable is defined and its value is not a false
  constant (the empty string, 0, N, NO, OFF, FALSE, IGNORE in any letter case, NOTFOUND or
  a value ending in -NOTFOUND).
\<close>

definition toupper :: "char \<Rightarrow> char" where
  "toupper c =
     (case map_of (zip ''abcdefghijklmnopqrstuvwxyz'' ''ABCDEFGHIJKLMNOPQRSTUVWXYZ'') c of
        Some u \<Rightarrow> u
      | None \<Rightarrow> c)"

definition cmIsOff :: "string \<Rightarrow> bool" where
  "cmIsOff v =
     (v = [] \<or> map toupper v \<in> set [''0'', ''N'', ''NO'', ''OFF'', ''FALSE'', ''IGNORE'']
      \<or> v = ''NOTFOUND'' \<or> suffix ''-NOTFOUND'' v)"

definition if_variable :: "string option \<Rightarrow> bool" where
  "if_variable var = (case var of None \<Rightarrow> False | Some v \<Rightarrow> \<not> cmIsOff v)"

text \<open>
  The result variable of \<^verbatim>\<open>execute_process\<close>: the exit code of the child, or a text
  describing why it could not be run. \<^verbatim>\<open>if(NOT result EQUAL 0)\<close> holds unless the
  result is the number zero.
\<close>

datatype proc_result = Exit int | Abnormal string

fun EQUAL_0 :: "proc_result \<Rightarrow> bool" where
  "EQUAL_0 (Exit n) = (n = 0)"
| "EQUAL_0 (Abnormal msg) = False"

section \<open>cmake/AppImage.cmake: the build rule\<close>

text \<open>
  The arguments of \<^verbatim>\<open>add_appimage_from_component\<close> after
  \<^verbatim>\<open>cmake_parse_arguments\<close>: a keyword that was not given leaves its variable
  undefined. The values of the multi-value keyword are stored as a list, joined by
  semicolons.
\<close>

record appimage_args =
  ARG_COMPONENT_NAME :: "string option"
  ARG_DISPLAY_NAME :: "string option"
  ARG_EXECUTABLE_NAME :: "string option"
  ARG_PLUGIN_TYPE :: "string option"
  ARG_EXTRA_ENV_VARS :: "string option"

definition multi_value :: "string list \<Rightarrow> string option" where
  "multi_value values = (if values = [] then None else Some (cmJoin values [semicolon]))"

record project =
  CMAKE_BINARY_DIR :: string
  CMAKE_SOURCE_DIR :: string
  CMAKE_COMMAND :: string

text \<open>
  What the function defines: a custom command with its output, and the target that
  triggers it. The two install rules, which build the target at packaging time and copy
  the output file, are not part of the model.
\<close>

record appimage_rule =
  OUTPUT :: string
  COMMAND :: "string list"
  DEPENDS :: "string list"
  WORKING_DIRECTORY :: string
  custom_target_name :: string
  package_component_name :: string

definition sanitized_name :: "string \<Rightarrow> string" where
  "sanitized_name display_name = string_REPLACE '' '' ''_'' display_name"

definition appimage_file_name :: "string \<Rightarrow> string" where
  "appimage_file_name display_name = sanitized_name display_name @ ''-x86_64.AppImage''"

definition appimage_full_path :: "project \<Rightarrow> string \<Rightarrow> string" where
  "appimage_full_path p display_name =
     CMAKE_BINARY_DIR p @ ''/'' @ appimage_file_name display_name"

text \<open>
  The flattening of the extra environment variables: the list is taken as one string and
  every semicolon in it is preceded by a backslash.
\<close>

definition env_vars_string :: "string \<Rightarrow> string" where
  "env_vars_string extra =
     string_REPLACE [semicolon] [backslash, semicolon] (cmJoin [extra] [semicolon])"

definition linuxdeploy_args :: "project \<Rightarrow> string \<Rightarrow> string \<Rightarrow> string \<Rightarrow> string
    \<Rightarrow> string option \<Rightarrow> string" where
  "linuxdeploy_args p component display executable plugin extra =
     (let args0 = cmake_set
            (unquoted (''-DCOMPONENT_NAME='' @ component)
             @ unquoted (''-DAPP_NAME='' @ display)
             @ unquoted (''-DEXECUTABLE_NAME='' @ executable)
             @ unquoted (''-DPLUGIN_TYPE='' @ plugin)
             @ unquoted (''-DCMAKE_CURRENT_BINARY_DIR='' @ CMAKE_BINARY_DIR p));
          args1 =
            (case extra of
               None \<Rightarrow> args0
             | Some e \<Rightarrow>
                 if if_variable extra
                 then list_APPEND args0
                        (''-DEXTRA_ENV_VARS:STRING='' @ [dquote] @ env_vars_string e @ [dquote])
                 else args0)
      in list_APPEND (list_APPEND args1 ''-P'')
           (CMAKE_SOURCE_DIR p @ ''/cmake/LinuxDeployAppImage.cmake''))"

definition add_appimage_from_component :: "project \<Rightarrow> appimage_args \<Rightarrow> string + appimage_rule" where
  "add_appimage_from_component p a =
     (case ARG_COMPONENT_NAME a of
        None \<Rightarrow> Inl ''add_appimage_from_component: COMPONENT_NAME is required.''
      | Some component \<Rightarrow>
     (case ARG_DISPLAY_NAME a of
        None \<Rightarrow> Inl ''add_appimage_from_component: DISPLAY_NAME is required.''
      | Some display \<Rightarrow>
     (case ARG_EXECUTABLE_NAME a of
        None \<Rightarrow> Inl ''add_appimage_from_component: EXECUTABLE_NAME is required.''
      | Some executable \<Rightarrow>
     (let plugin = (case ARG_PLUGIN_TYPE a of None \<Rightarrow> ''qt'' | Some t \<Rightarrow> t)
      in Inr \<lparr> OUTPUT = appimage_full_path p display,
               COMMAND = unquoted (CMAKE_COMMAND p)
                 @ unquoted (linuxdeploy_args p component display executable plugin
                      (ARG_EXTRA_ENV_VARS a)),
               DEPENDS = unquoted executable,
               WORKING_DIRECTORY = CMAKE_BINARY_DIR p,
               custom_target_name = ''create_appimage_'' @ component,
               package_component_name = component @ ''_package'' \<rparr>))))"

text \<open>
  The rule's command reaches the script through the build tool and its shell, and the
  script's variables are the \<^verbatim>\<open>-D\<close> definitions of the command line. The shell
  removes the double quotes put around the flattened list; the model covers arguments
  without blanks and without other characters special to the shell. A definition is
  \<^verbatim>\<open>-D<var>=<value>\<close> or \<^verbatim>\<open>-D<var>:<type>=<value>\<close>; a later one replaces an
  earlier one.
\<close>

definition shell_word :: "string \<Rightarrow> string" where
  "shell_word arg = filter (\<lambda>c. c \<noteq> dquote) arg"



section \<open>cmake/LinuxDeployAppImage.cmake: the script\<close>

text \<open>
  The script works on the file system and runs child processes. The state of the model is
  the file system, a map from paths to what is there, together with the trace of the
  commands with an effect that were executed, in order. Status messages are not part of
  the state.
\<close>

datatype node = Dir | File string | Link string

datatype action =
    RemoveRecurse string
  | MakeDirectory string
  | Download string string
  | Process "string list" string
  | Rename string string
  | CreateLink string string
  | Remove string
  | ReadFile string
  | WriteFile string string
  | Touch string

record state =
  fs :: "string \<rightharpoonup> node"
  trace :: "action list"

text \<open>
  What the script does not decide is given by the world: the bytes a download leaves in
  its destination, the result of each child process and what the child does to the file
  system, and whether a file command fails (with the text of its error).
\<close>

record world =
  fetch :: "string \<Rightarrow> string"
  proc :: "string list \<Rightarrow> proc_result"
  effect :: "string list \<Rightarrow> (string \<rightharpoonup> node) \<Rightarrow> (string \<rightharpoonup> node)"
  fs_error :: "action \<Rightarrow> string option"

text \<open>
  A run ends with the state reached, or, after \<^verbatim>\<open>message(FATAL_ERROR ...)\<close> or a
  failed file command, with the error text and the state at that point.
\<close>

type_synonym result = "(string \<times> state) + state"

fun run_stages :: "(state \<Rightarrow> result) list \<Rightarrow> state \<Rightarrow> result" where
  "run_stages [] s = Inr s"
| "run_stages (f # rest) s = (case f s of Inl e \<Rightarrow> Inl e | Inr s' \<Rightarrow> run_stages rest s')"

definition logged :: "action \<Rightarrow> state \<Rightarrow> state" where
  "logged a s = s\<lparr>trace := trace s @ [a]\<rparr>"

definition file_op :: "world \<Rightarrow> action \<Rightarrow> ((string \<rightharpoonup> node) \<Rightarrow> (string \<rightharpoonup> node)) \<Rightarrow> state \<Rightarrow> result" where
  "file_op w a f s =
     (case fs_error w a of
        Some msg \<Rightarrow> Inl (msg, logged a s)
      | None \<Rightarrow> Inr (logged a (s\<lparr>fs := f (fs s)\<rparr>)))"

definition under :: "string \<Rightarrow> string \<Rightarrow> bool" where
  "under dir p = (p = dir \<or> prefix (dir @ ''/'') p)"

text \<open>
  \<^verbatim>\<open>if(EXISTS path)\<close>. A symbolic link counts as existing: the link the script creates
  points into the tree extracted just before.
\<close>

definition EXISTS :: "state \<Rightarrow> string \<Rightarrow> bool" where
  "EXISTS s p = (fs s p \<noteq> None)"

definition file_REMOVE_RECURSE :: "string \<Rightarrow> state \<Rightarrow> result" where
  "file_REMOVE_RECURSE dir s =
     Inr (logged (RemoveRecurse dir) (s\<lparr>fs := (\<lambda>p. if under dir p then None else fs s p)\<rparr>))"

definition file_MAKE_DIRECTORY :: "world \<Rightarrow> string \<Rightarrow> state \<Rightarrow> result" where
  "file_MAKE_DIRECTORY w dir = file_op w (MakeDirectory dir) (\<lambda>m. m(dir \<mapsto> Dir))"

definition file_DOWNLOAD :: "world \<Rightarrow> string \<Rightarrow> string \<Rightarrow> state \<Rightarrow> result" where
  "file_DOWNLOAD w url dest = file_op w (Download url dest) (\<lambda>m. m(dest \<mapsto> File (fetch w url)))"

definition file_RENAME :: "world \<Rightarrow> string \<Rightarrow> string \<Rightarrow> state \<Rightarrow> result" where
  "file_RENAME w old new =
     file_op w (Rename old new)
       (\<lambda>m p. if under new p then m (old @ drop (length new) p)
              else if under old p then None else m p)"

definition file_CREATE_LINK :: "world \<Rightarrow> string \<Rightarrow> string \<Rightarrow> state \<Rightarrow> result" where
  "file_CREATE_LINK w target link = file_op w (CreateLink target link) (\<lambda>m. m(link \<mapsto> Link target))"

definition file_REMOVE :: "string \<Rightarrow> state \<Rightarrow> result" where
  "file_REMOVE p s = Inr (logged (Remove p) (s\<lparr>fs := (fs s)(p := None)\<rparr>))"

definition file_WRITE :: "world \<Rightarrow> string \<Rightarrow> string \<Rightarrow> state \<Rightarrow> result" where
  "file_WRITE w p content = file_op w (WriteFile p content) (\<lambda>m. m(p \<mapsto> File content))"

definition file_TOUCH :: "world \<Rightarrow> string \<Rightarrow> state \<Rightarrow> result" where
  "file_TOUCH w p =
     file_op w (Touch p) (\<lambda>m. case m p of None \<Rightarrow> m(p \<mapsto> File []) | Some n \<Rightarrow> m)"

definition file_READ :: "world \<Rightarrow> string \<Rightarrow> state \<Rightarrow> (string \<times> state) + (string \<times> state)" where
  "file_READ w p s =
     (case fs_error w (ReadFile p) of
        Some msg \<Rightarrow> Inl (msg, logged (ReadFile p) s)
      | None \<Rightarrow>
          (case fs s p of
             Some (File content) \<Rightarrow> Inr (content, logged (ReadFile p) s)
           | _ \<Rightarrow> Inl (''file failed to open for reading: '' @ p, logged (ReadFile p) s)))"

definition execute_process :: "world \<Rightarrow> string list \<Rightarrow> string \<Rightarrow> state \<Rightarrow> proc_result \<times> state" where
  "execute_process w argv cwd s =
     (proc w argv, logged (Process argv cwd) (s\<lparr>fs := effect w argv (fs s)\<rparr>))"

text \<open>A variable reference; an undefined variable evaluates to the empty string.\<close>

definition var :: "(string \<rightharpoonup> string) \<Rightarrow> string \<Rightarrow> string" where
  "var vs name = (case vs name of None \<Rightarrow> [] | Some v \<Rightarrow> v)"

definition APPDIR :: "(string \<rightharpoonup> string) \<Rightarrow> string" where
  "APPDIR vs = var vs ''CMAKE_CURRENT_BINARY_DIR'' @ ''/AppDir_'' @ var vs ''COMPONENT_NAME''"

definition LINUXDEPLOY_DIR :: "(string \<rightharpoonup> string) \<Rightarrow> string" where
  "LINUXDEPLOY_DIR vs = var vs ''CMAKE_CURRENT_BINARY_DIR'' @ ''/linuxdeploy_tools''"

subsection \<open>Downloading and extracting a tool, downloading a script\<close>

definition ensure_appimage_tool :: "world \<Rightarrow> string \<Rightarrow> string \<Rightarrow> string \<Rightarrow> state \<Rightarrow> result" where
  "ensure_appimage_tool w dir TOOL_NAME DOWNLOAD_URL s =
     (let TOOL_PATH = dir @ ''/'' @ TOOL_NAME in
      if EXISTS s TOOL_PATH then Inr s
      else run_stages
        [file_MAKE_DIRECTORY w dir,
         file_DOWNLOAD w DOWNLOAD_URL (TOOL_PATH @ ''.tmp''),
         (\<lambda>s. Inr (snd (execute_process w [''chmod'', ''+x'', TOOL_PATH @ ''.tmp''] [] s))),
         (\<lambda>s. case execute_process w [TOOL_PATH @ ''.tmp'', ''--appimage-extract''] dir s of
                 (EXTRACT_RESULT, s') \<Rightarrow>
                   if \<not> EQUAL_0 EXTRACT_RESULT
                   then Inl (''Failed to extract '' @ TOOL_NAME, s')
                   else Inr s'),
         file_RENAME w (dir @ ''/squashfs-root'') (dir @ ''/'' @ TOOL_NAME @ ''-squashfs-root''),
         file_CREATE_LINK w (dir @ ''/'' @ TOOL_NAME @ ''-squashfs-root/AppRun'') TOOL_PATH,
         file_REMOVE (TOOL_PATH @ ''.tmp'')] s)"

definition ensure_shell_script :: "world \<Rightarrow> string \<Rightarrow> string \<Rightarrow> string \<Rightarrow> state \<Rightarrow> result" where
  "ensure_shell_script w dir SCRIPT_NAME DOWNLOAD_URL s =
     (let SCRIPT_PATH = dir @ ''/'' @ SCRIPT_NAME in
      if EXISTS s SCRIPT_PATH then Inr s
      else run_stages
        [file_MAKE_DIRECTORY w dir,
         file_DOWNLOAD w DOWNLOAD_URL SCRIPT_PATH,
         (\<lambda>s. Inr (snd (execute_process w [''chmod'', ''+x'', SCRIPT_PATH] [] s)))] s)"

subsection \<open>The patch of the gtk plugin script\<close>

definition applyTextPatch :: "string \<Rightarrow> string" where
  "applyTextPatch PLUGIN_CONTENT = string_REPLACE ''libgtk-3-0'' ''libgtk-3-0t64'' PLUGIN_CONTENT"

definition patch_gtk_plugin :: "world \<Rightarrow> string \<Rightarrow> state \<Rightarrow> result" where
  "patch_gtk_plugin w dir s =
     (case file_READ w (dir @ ''/linuxdeploy-plugin-gtk.sh'') s of
        Inl e \<Rightarrow> Inl e
      | Inr (PLUGIN_CONTENT, s') \<Rightarrow>
          file_WRITE w (dir @ ''/linuxdeploy-plugin-gtk.sh'') (applyTextPatch PLUGIN_CONTENT) s')"

subsection \<open>The environment of the deployment tool\<close>

text \<open>
  The list starts as the single PATH entry. Every element of \<^verbatim>\<open>EXTRA_ENV_VARS\<close>, if
  that is defined and not empty, has the token \<^verbatim>\<open><SEMICOLON>\<close> replaced by a backslash
  and a semicolon and is appended.
\<close>

definition unescape_ENV_VAR :: "string \<Rightarrow> string" where
  "unescape_ENV_VAR ENV_VAR = string_REPLACE ''<SEMICOLON>'' [backslash, semicolon] ENV_VAR"

definition LINUXDEPLOY_ENV :: "string \<Rightarrow> string \<Rightarrow> string option \<Rightarrow> string" where
  "LINUXDEPLOY_ENV dir env_path EXTRA_ENV_VARS =
     (let base = ''PATH='' @ dir @ '':'' @ env_path in
      case EXTRA_ENV_VARS of
        None \<Rightarrow> base
      | Some extra \<Rightarrow>
          if extra \<noteq> []
          then foldl (\<lambda>env ENV_VAR. list_APPEND env (unescape_ENV_VAR ENV_VAR)) base
                 (foreach_IN_LISTS extra)
          else base)"

subsection \<open>The steps of the script\<close>

definition clean_appdir :: "(string \<rightharpoonup> string) \<Rightarrow> state \<Rightarrow> result" where
  "clean_appdir vs = file_REMOVE_RECURSE (APPDIR vs)"

definition install_command :: "(string \<rightharpoonup> string) \<Rightarrow> string list" where
  "install_command vs =
     unquoted (var vs ''CMAKE_COMMAND'') @ [''--install'', ''.'', ''--config'', ''Release'',
       ''--component''] @ unquoted (var vs ''COMPONENT_NAME'') @ [''--prefix'']
     @ unquoted (APPDIR vs @ ''/usr/bin'')"

definition install_component :: "world \<Rightarrow> (string \<rightharpoonup> string) \<Rightarrow> state \<Rightarrow> result" where
  "install_component w vs s =
     (case execute_process w (install_command vs) (var vs ''CMAKE_CURRENT_BINARY_DIR'') s of
        (INSTALL_RESULT, s') \<Rightarrow>
          if \<not> EQUAL_0 INSTALL_RESULT
          then Inl (''Failed to install component '' @ var vs ''COMPONENT_NAME'', s')
          else Inr s')"

definition DESKTOP_CONTENT :: "(string \<rightharpoonup> string) \<Rightarrow> string" where
  "DESKTOP_CONTENT vs =
     ''[Desktop Entry]'' @ [CHR 0x0A]
     @ ''Type=Application'' @ [CHR 0x0A]
     @ ''Name='' @ var vs ''APP_NAME'' @ [CHR 0x0A]
     @ ''Exec='' @ var vs ''EXECUTABLE_NAME'' @ [CHR 0x0A]
     @ ''Categories=Utility;'' @ [CHR 0x0A]
     @ ''Icon=appname'' @ [CHR 0x0A]"

definition write_metadata :: "world \<Rightarrow> (string \<rightharpoonup> string) \<Rightarrow> state \<Rightarrow> result" where
  "write_metadata w vs =
     run_stages
       [file_MAKE_DIRECTORY w (APPDIR vs @ ''/usr/share/applications''),
        file_WRITE w (APPDIR vs @ ''/usr/share/applications/'' @ var vs ''EXECUTABLE_NAME''
                        @ ''.desktop'') (DESKTOP_CONTENT vs),
        file_MAKE_DIRECTORY w (APPDIR vs @ ''/usr/share/icons/hicolor/scalable/apps''),
        file_TOUCH w (APPDIR vs @ ''/usr/share/icons/hicolor/scalable/apps/appname.svg'')]"

definition ensure_linuxdeploy :: "world \<Rightarrow> (string \<rightharpoonup> string) \<Rightarrow> state \<Rightarrow> result" where
  "ensure_linuxdeploy w vs =
     ensure_appimage_tool w (LINUXDEPLOY_DIR vs) ''linuxdeploy-x86_64.AppImage''
       ''https://github.com/linuxdeploy/linuxdeploy/releases/download/continuous/linuxdeploy-x86_64.AppImage''"

definition setup_plugin :: "world \<Rightarrow> (string \<rightharpoonup> string) \<Rightarrow> state \<Rightarrow> result" where
  "setup_plugin w vs s =
     (if var vs ''PLUGIN_TYPE'' = ''qt''
      then ensure_appimage_tool w (LINUXDEPLOY_DIR vs) ''linuxdeploy-plugin-qt-x86_64.AppImage''
             ''https://github.com/linuxdeploy/linuxdeploy-plugin-qt/releases/download/1-alpha-20250213-1/linuxdeploy-plugin-qt-x86_64.AppImage'' s
      else if var vs ''PLUGIN_TYPE'' = ''gtk''
      then run_stages
             [ensure_shell_script w (LINUXDEPLOY_DIR vs) ''linuxdeploy-plugin-gtk.sh''
                ''https://raw.githubusercontent.com/linuxdeploy/linuxdeploy-plugin-gtk/master/linuxdeploy-plugin-gtk.sh'',
              patch_gtk_plugin w (LINUXDEPLOY_DIR vs)] s
      else Inr s)"

definition linuxdeploy_command :: "(string \<rightharpoonup> string) \<Rightarrow> string \<Rightarrow> string list" where
  "linuxdeploy_command vs env_path =
     unquoted (var vs ''CMAKE_COMMAND'') @ [''-E'', ''env'']
     @ unquoted (LINUXDEPLOY_ENV (LINUXDEPLOY_DIR vs) env_path (vs ''EXTRA_ENV_VARS''))
     @ unquoted (LINUXDEPLOY_DIR vs @ ''/linuxdeploy-x86_64.AppImage'')
     @ [''--appdir''] @ unquoted (APPDIR vs)
     @ [''--plugin''] @ unquoted (var vs ''PLUGIN_TYPE'')
     @ [''--output'', ''appimage'']"

definition run_linuxdeploy :: "world \<Rightarrow> (string \<rightharpoonup> string) \<Rightarrow> string \<Rightarrow> state \<Rightarrow> result" where
  "run_linuxdeploy w vs env_path s =
     (case execute_process w (linuxdeploy_command vs env_path)
             (var vs ''CMAKE_CURRENT_BINARY_DIR'') s of
        (LINUXDEPLOY_RESULT, s') \<Rightarrow>
          if \<not> EQUAL_0 LINUXDEPLOY_RESULT
          then Inl (''linuxdeploy failed for '' @ var vs ''COMPONENT_NAME'', s')
          else Inr s')"

subsection \<open>The script\<close>

text \<open>
  The script takes the variables defined on its command line and the inherited
  \<^verbatim>\<open>PATH\<close>. It checks its required variables, gives \<^verbatim>\<open>PLUGIN_TYPE\<close> its default,
  and runs its steps in order; the first fatal error ends the run.
\<close>

definition default_PLUGIN_TYPE :: "(string \<rightharpoonup> string) \<Rightarrow> (string \<rightharpoonup> string)" where
  "default_PLUGIN_TYPE vs =
     (if vs ''PLUGIN_TYPE'' = None then vs(''PLUGIN_TYPE'' \<mapsto> ''qt'') else vs)"

definition LinuxDeployAppImage :: "world \<Rightarrow> (string \<rightharpoonup> string) \<Rightarrow> string \<Rightarrow> state \<Rightarrow> result" where
  "LinuxDeployAppImage w vs0 env_path s =
     (if vs0 ''COMPONENT_NAME'' = None then Inl (''COMPONENT_NAME must be defined'', s)
      else if vs0 ''APP_NAME'' = None then Inl (''APP_NAME must be defined'', s)
      else if vs0 ''EXECUTABLE_NAME'' = None then Inl (''EXECUTABLE_NAME must be defined'', s)
      else
        (let vs = default_PLUGIN_TYPE vs0 in
         run_stages
           [clean_appdir vs,
            install_component w vs,
            write_metadata w vs,
            ensure_linuxdeploy w vs,
            setup_plugin w vs,
            run_linuxdeploy w vs env_path] s))"

section \<open>From the build rule to the environment of the deployment tool\<close>


section \<open>Observations and example inputs\<close>

text \<open>The state a run ended in, whether it ended with an error or not.\<close>

definition final_state :: "result \<Rightarrow> state" where
  "final_state r = (case r of Inl (msg, s) \<Rightarrow> s | Inr s \<Rightarrow> s)"

text \<open>What is at a path after a run that did not fail.\<close>

definition node_after :: "result \<Rightarrow> string \<Rightarrow> node option" where
  "node_after r p = (case r of Inl e \<Rightarrow> None | Inr s \<Rightarrow> fs s p)"


text \<open>
  A world in which nothing fails, and two that differ from it in one child process: one
  where \<^verbatim>\<open>chmod\<close> exits with 1, one where the install step exits with 1.
\<close>

definition quiet_world :: world where
  "quiet_world = \<lparr> fetch = (\<lambda>url. []), proc = (\<lambda>argv. Exit 0), effect = (\<lambda>argv m. m),
     fs_error = (\<lambda>a. None) \<rparr>"

definition chmod_fails_world :: world where
  "chmod_fails_world =
     quiet_world\<lparr>proc := (\<lambda>argv. if take 1 argv = [''chmod''] then Exit 1 else Exit 0)\<rparr>"

definition install_fails_world :: world where
  "install_fails_world =
     quiet_world\<lparr>proc := (\<lambda>argv. if ''--install'' \<in> set argv then Exit 1 else Exit 0)\<rparr>"

definition empty_state :: state where
  "empty_state = \<lparr> fs = Map.empty, trace = [] \<rparr>"

text \<open>A tool directory that already holds the gtk plugin script from an earlier run.\<close>

definition cached_gtk_state :: state where
  "cached_gtk_state =
     \<lparr> fs = [''/b/linuxdeploy_tools/linuxdeploy-plugin-gtk.sh'' \<mapsto>
               File ''apt-get install libgtk-3-0''],
       trace = [] \<rparr>"

definition example_vars :: "string \<Rightarrow> (string \<rightharpoonup> string)" where
  "example_vars plugin =
     [''CMAKE_COMMAND'' \<mapsto> ''cmake'', ''CMAKE_CURRENT_BINARY_DIR'' \<mapsto> ''/b'',
      ''COMPONENT_NAME'' \<mapsto> ''viewer'', ''APP_NAME'' \<mapsto> ''My Viewer'',
      ''EXECUTABLE_NAME'' \<mapsto> ''viewer-bin'', ''PLUGIN_TYPE'' \<mapsto> plugin]"

text \<open>
  A world in which \<^verbatim>\<open>chmod\<close> fails and the downloaded file cannot be executed.
\<close>

definition not_executable_world :: world where
  "not_executable_world =
     quiet_world\<lparr>proc := (\<lambda>argv. if take 1 argv = [''chmod''] then Exit 1
                             else if ''--appimage-extract'' \<in> set argv
                             then Abnormal ''Permission denied'' else Exit 0)\<rparr>"

text \<open>A project and a call of \<^verbatim>\<open>add_appimage_from_component\<close> in it.\<close>

definition example_project :: project where
  "example_project = \<lparr> CMAKE_BINARY_DIR = ''/b'', CMAKE_SOURCE_DIR = ''/s'', CMAKE_COMMAND = ''/usr/bin/cmake'' \<rparr>"

definition example_args :: "string list \<Rightarrow> appimage_args" where
  "example_args extra =
     \<lparr> ARG_COMPONENT_NAME = Some ''viewer'', ARG_DISPLAY_NAME = Some ''My Viewer'',
       ARG_EXECUTABLE_NAME = Some ''viewer-bin'', ARG_PLUGIN_TYPE = None,
       ARG_EXTRA_ENV_VARS = multi_value extra \<rparr>"

text \<open>
  The characters with a meaning in a list string, and the strings free of them.
\<close>

definition list_special :: "char \<Rightarrow> bool" where
  "list_special c = (c = semicolon \<or> c = backslash \<or> c = CHR ''['' \<or> c = CHR '']'')"

definition plain :: "string \<Rightarrow> bool" where
  "plain s = list_all (\<lambda>c. \<not> list_special c) s"

text \<open>
  Strings that are also free of double quotes, and absolute paths made of such characters.
\<close>

definition simple :: "string \<Rightarrow> bool" where
  "simple s = (plain s \<and> dquote \<notin> set s)"



section \<open>Properties\<close>

lemma sanitized_name_map:
  "sanitized_name s = map (\<lambda>c. if c = CHR '' '' then CHR ''_'' else c) s"
  unfolding sanitized_name_def by (induction s) auto

text \<open>
  Claim C7. For every display name, the sanitized name is the display name with every
  space replaced by an underscore and every other character unchanged (so
  \<^verbatim>\<open>My App Two\<close> becomes \<^verbatim>\<open>My_App_Two\<close>), and the output of the build rule,
  the artifact path, is the build directory, a slash, the sanitized name and the suffix
  \<^verbatim>\<open>-x86_64.AppImage\<close>.
\<close>

theorem sanitized_name_artifact_path:
  "sanitized_name display = map (\<lambda>c. if c = CHR '' '' then CHR ''_'' else c) display
   \<and> sanitized_name ''My App Two'' = ''My_App_Two''
   \<and> appimage_full_path p display
       = CMAKE_BINARY_DIR p @ ''/'' @ sanitized_name display @ ''-x86_64.AppImage''
   \<and> (case add_appimage_from_component p
              \<lparr> ARG_COMPONENT_NAME = Some component, ARG_DISPLAY_NAME = Some display,
                ARG_EXECUTABLE_NAME = Some executable, ARG_PLUGIN_TYPE = plugin,
                ARG_EXTRA_ENV_VARS = extra \<rparr> of
         Inl msg \<Rightarrow> False
       | Inr rule \<Rightarrow> OUTPUT rule
           = CMAKE_BINARY_DIR p @ ''/'' @ sanitized_name display @ ''-x86_64.AppImage'')"
  by (simp add: sanitized_name_map appimage_full_path_def appimage_file_name_def
      add_appimage_from_component_def Let_def)

lemmas file_defs = file_MAKE_DIRECTORY_def file_DOWNLOAD_def file_RENAME_def
  file_CREATE_LINK_def file_REMOVE_def execute_process_def file_op_def logged_def
  file_READ_def file_WRITE_def file_TOUCH_def file_REMOVE_RECURSE_def

subsection \<open>The patch of the gtk plugin script\<close>

text \<open>
  Claim C1. Applying the gtk text patch to a script that mentions \<^verbatim>\<open>libgtk-3-0\<close> gives
  \<^verbatim>\<open>libgtk-3-0t64\<close>, and applying it to that result gives \<^verbatim>\<open>libgtk-3-0t64t64\<close>: the
  replacement text contains the text searched for, so the second application changes the
  file again. The script does this on every run, since the cached plugin script is not
  downloaded again but is patched again.
\<close>

theorem applyTextPatch_twice:
  "applyTextPatch ''apt-get install libgtk-3-0'' = ''apt-get install libgtk-3-0t64''
   \<and> applyTextPatch (applyTextPatch ''apt-get install libgtk-3-0'')
       = ''apt-get install libgtk-3-0t64t64''
   \<and> node_after (setup_plugin quiet_world (example_vars ''gtk'') cached_gtk_state)
         ''/b/linuxdeploy_tools/linuxdeploy-plugin-gtk.sh''
       = Some (File ''apt-get install libgtk-3-0t64'')
   \<and> node_after (run_stages [setup_plugin quiet_world (example_vars ''gtk''),
                              setup_plugin quiet_world (example_vars ''gtk'')] cached_gtk_state)
         ''/b/linuxdeploy_tools/linuxdeploy-plugin-gtk.sh''
       = Some (File ''apt-get install libgtk-3-0t64t64'')"
  by (simp add: node_after_def setup_plugin_def example_vars_def var_def LINUXDEPLOY_DIR_def
      ensure_shell_script_def EXISTS_def cached_gtk_state_def patch_gtk_plugin_def file_defs
      quiet_world_def applyTextPatch_def Let_def)

subsection \<open>Acquiring a tool\<close>






subsection \<open>A failed install step\<close>

lemma default_PLUGIN_TYPE_other:
  "name \<noteq> ''PLUGIN_TYPE'' \<Longrightarrow> default_PLUGIN_TYPE vs name = vs name"
  by (simp add: default_PLUGIN_TYPE_def)

lemma APPDIR_default: "APPDIR (default_PLUGIN_TYPE vs) = APPDIR vs"
  by (simp add: APPDIR_def var_def default_PLUGIN_TYPE_other)

lemma install_command_default: "install_command (default_PLUGIN_TYPE vs) = install_command vs"
  by (simp add: install_command_def APPDIR_default var_def default_PLUGIN_TYPE_other)

text \<open>
  Claim C5. If the required variables are defined and the install step does not exit
  with 0, the run ends with the fatal error \<^verbatim>\<open>Failed to install component <name>\<close>.
  The trace then holds the removal of the old staging tree and the install process and
  nothing else: no metadata is written, no tool is ensured and the deployment tool is not
  run.
\<close>

theorem install_failure_halts:
  assumes "vs ''COMPONENT_NAME'' = Some component"
      and "vs ''APP_NAME'' = Some app"
      and "vs ''EXECUTABLE_NAME'' = Some exe"
      and "\<not> EQUAL_0 (proc w (install_command vs))"
  shows "LinuxDeployAppImage w vs env_path s
           = Inl (''Failed to install component '' @ component,
                  \<lparr> fs = effect w (install_command vs)
                            (\<lambda>p. if under (APPDIR vs) p then None else fs s p),
                    trace = trace s @ [RemoveRecurse (APPDIR vs),
                       Process (install_command vs) (var vs ''CMAKE_CURRENT_BINARY_DIR'')] \<rparr>)"
  using assms
  by (simp add: LinuxDeployAppImage_def Let_def clean_appdir_def install_component_def
      file_REMOVE_RECURSE_def execute_process_def logged_def APPDIR_default
      install_command_default var_def default_PLUGIN_TYPE_other)

theorem install_failure_halts_witness:
  "example_vars ''qt'' ''COMPONENT_NAME'' = Some ''viewer''
   \<and> \<not> EQUAL_0 (proc install_fails_world (install_command (example_vars ''qt'')))
   \<and> LinuxDeployAppImage install_fails_world (example_vars ''qt'') ''/usr/bin'' empty_state
       = Inl (''Failed to install component '' @ ''viewer'',
              \<lparr> fs = effect install_fails_world (install_command (example_vars ''qt''))
                            (\<lambda>p. if under (APPDIR (example_vars ''qt'')) p then None
                                  else fs empty_state p),
                trace = trace empty_state @ [RemoveRecurse (APPDIR (example_vars ''qt'')),
                   Process (install_command (example_vars ''qt''))
                     (var (example_vars ''qt'') ''CMAKE_CURRENT_BINARY_DIR'')] \<rparr>)
   \<and> trace empty_state @ [RemoveRecurse (APPDIR (example_vars ''qt'')),
                   Process (install_command (example_vars ''qt''))
                     (var (example_vars ''qt'') ''CMAKE_CURRENT_BINARY_DIR'')]
      = [RemoveRecurse ''/b/AppDir_viewer'',
         Process [''cmake'', ''--install'', ''.'', ''--config'', ''Release'',
           ''--component'', ''viewer'', ''--prefix'', ''/b/AppDir_viewer/usr/bin''] ''/b'']"
proof -
  have c: "install_command (example_vars ''qt'') = [''cmake'', ''--install'', ''.'', ''--config'',
      ''Release'', ''--component'', ''viewer'', ''--prefix'', ''/b/AppDir_viewer/usr/bin'']"
    by (simp add: install_command_def example_vars_def var_def APPDIR_def unquoted_def
        cmExpandList_def semicolon_def)
  have h1: "example_vars ''qt'' ''COMPONENT_NAME'' = Some ''viewer''"
    and h2: "example_vars ''qt'' ''APP_NAME'' = Some ''My Viewer''"
    and h3: "example_vars ''qt'' ''EXECUTABLE_NAME'' = Some ''viewer-bin''"
    by (simp_all add: example_vars_def)
  have h4: "\<not> EQUAL_0 (proc install_fails_world (install_command (example_vars ''qt'')))"
    by (simp add: c install_fails_world_def quiet_world_def)
  have t: "trace empty_state @ [RemoveRecurse (APPDIR (example_vars ''qt'')),
                   Process (install_command (example_vars ''qt''))
                     (var (example_vars ''qt'') ''CMAKE_CURRENT_BINARY_DIR'')]
      = [RemoveRecurse ''/b/AppDir_viewer'',
         Process [''cmake'', ''--install'', ''.'', ''--config'', ''Release'',
           ''--component'', ''viewer'', ''--prefix'', ''/b/AppDir_viewer/usr/bin''] ''/b'']"
  proof -
    have d: "APPDIR (example_vars ''qt'') = ''/b/AppDir_viewer''"
      by (simp add: APPDIR_def example_vars_def var_def)
    have e: "var (example_vars ''qt'') ''CMAKE_CURRENT_BINARY_DIR'' = ''/b''"
      by (simp add: example_vars_def var_def)
    show ?thesis by (simp add: c d e empty_state_def)
  qed
  show ?thesis
    by (intro conjI) (rule h1, rule h4, rule install_failure_halts[OF h1 h2 h3 h4], rule t)
qed

subsection \<open>A failing chmod\<close>

text \<open>
  In a world where \<^verbatim>\<open>chmod\<close> exits with 1 and every other step succeeds,
  \<^verbatim>\<open>ensure_appimage_tool\<close> does not fail: it runs all its steps and returns.
\<close>

theorem chmod_failure_counterexample:
  "proc chmod_fails_world [''chmod'', ''+x'', ''/b/linuxdeploy_tools/linuxdeploy-x86_64.AppImage.tmp'']
     = Exit 1
   \<and> \<not> isl (ensure_appimage_tool chmod_fails_world ''/b/linuxdeploy_tools''
         ''linuxdeploy-x86_64.AppImage'' ''https://example.org/tool'' empty_state)
   \<and> trace (final_state (ensure_appimage_tool chmod_fails_world ''/b/linuxdeploy_tools''
         ''linuxdeploy-x86_64.AppImage'' ''https://example.org/tool'' empty_state))
      = [MakeDirectory ''/b/linuxdeploy_tools'',
         Download ''https://example.org/tool'' ''/b/linuxdeploy_tools/linuxdeploy-x86_64.AppImage.tmp'',
         Process [''chmod'', ''+x'', ''/b/linuxdeploy_tools/linuxdeploy-x86_64.AppImage.tmp''] [],
         Process [''/b/linuxdeploy_tools/linuxdeploy-x86_64.AppImage.tmp'', ''--appimage-extract'']
           ''/b/linuxdeploy_tools'',
         Rename ''/b/linuxdeploy_tools/squashfs-root''
           ''/b/linuxdeploy_tools/linuxdeploy-x86_64.AppImage-squashfs-root'',
         CreateLink ''/b/linuxdeploy_tools/linuxdeploy-x86_64.AppImage-squashfs-root/AppRun''
           ''/b/linuxdeploy_tools/linuxdeploy-x86_64.AppImage'',
         Remove ''/b/linuxdeploy_tools/linuxdeploy-x86_64.AppImage.tmp'']"
  by (simp add: ensure_appimage_tool_def Let_def EXISTS_def empty_state_def quiet_world_def
      chmod_fails_world_def final_state_def file_defs)

lemma chmod_irrelevant:
  "ensure_appimage_tool
       (w\<lparr>proc := (proc w)([''chmod'', ''+x'', dir @ ''/'' @ name @ ''.tmp''] := r)\<rparr>)
       dir name url s
     = ensure_appimage_tool w dir name url s"
  by (simp add: ensure_appimage_tool_def Let_def file_defs split: option.splits sum.splits)

lemma extract_failure:
  assumes "\<not> EXISTS s (dir @ ''/'' @ name)"
      and "fs_error w (MakeDirectory dir) = None"
      and "fs_error w (Download url (dir @ ''/'' @ name @ ''.tmp'')) = None"
      and "\<not> EQUAL_0 (proc w [dir @ ''/'' @ name @ ''.tmp'', ''--appimage-extract''])"
  shows "\<exists>s'. ensure_appimage_tool w dir name url s = Inl (''Failed to extract '' @ name, s')"
  using assms by (simp add: ensure_appimage_tool_def Let_def file_defs)

text \<open>
  Claim C6, as the script has it. The result of \<^verbatim>\<open>chmod\<close> is not inspected: whatever
  \<^verbatim>\<open>chmod\<close> returns, \<^verbatim>\<open>ensure_appimage_tool\<close> ends in the same way, so a failing
  \<^verbatim>\<open>chmod\<close> does not by itself fail the call. The run is aborted by the next step: when
  the directory and the download succeed and the self-extraction does not exit with 0,
  the call ends with the fatal error \<^verbatim>\<open>Failed to extract <name>\<close>.
\<close>

theorem chmod_result_not_inspected:
  "ensure_appimage_tool
       (w\<lparr>proc := (proc w)([''chmod'', ''+x'', dir @ ''/'' @ name @ ''.tmp''] := r)\<rparr>)
       dir name url s
     = ensure_appimage_tool w dir name url s
   \<and> (\<not> EXISTS s (dir @ ''/'' @ name)
        \<and> fs_error w (MakeDirectory dir) = None
        \<and> fs_error w (Download url (dir @ ''/'' @ name @ ''.tmp'')) = None
        \<and> \<not> EQUAL_0 (proc w [dir @ ''/'' @ name @ ''.tmp'', ''--appimage-extract''])
      \<longrightarrow> (\<exists>s'. ensure_appimage_tool w dir name url s = Inl (''Failed to extract '' @ name, s')))"
  using chmod_irrelevant extract_failure by blast

theorem chmod_result_not_inspected_witness:
  "ensure_appimage_tool
       (not_executable_world\<lparr>proc := (proc not_executable_world)
           ([''chmod'', ''+x'', ''/b/linuxdeploy_tools'' @ ''/'' @ ''tool'' @ ''.tmp''] := Exit 0)\<rparr>)
       ''/b/linuxdeploy_tools'' ''tool'' ''https://example.org/tool'' empty_state
     = ensure_appimage_tool not_executable_world ''/b/linuxdeploy_tools'' ''tool''
         ''https://example.org/tool'' empty_state
   \<and> \<not> EXISTS empty_state (''/b/linuxdeploy_tools'' @ ''/'' @ ''tool'')
   \<and> \<not> EQUAL_0 (proc not_executable_world
           [''/b/linuxdeploy_tools'' @ ''/'' @ ''tool'' @ ''.tmp'', ''--appimage-extract''])
   \<and> (\<exists>s'. ensure_appimage_tool not_executable_world ''/b/linuxdeploy_tools'' ''tool''
         ''https://example.org/tool'' empty_state = Inl (''Failed to extract '' @ ''tool'', s'))"
proof -
  have a: "\<not> EXISTS empty_state (''/b/linuxdeploy_tools'' @ ''/'' @ ''tool'')"
    by (simp add: EXISTS_def empty_state_def)
  have b: "fs_error not_executable_world (MakeDirectory ''/b/linuxdeploy_tools'') = None"
    by (simp add: not_executable_world_def quiet_world_def)
  have c: "fs_error not_executable_world (Download ''https://example.org/tool''
             (''/b/linuxdeploy_tools'' @ ''/'' @ ''tool'' @ ''.tmp'')) = None"
    by (simp add: not_executable_world_def quiet_world_def)
  have d: "\<not> EQUAL_0 (proc not_executable_world
           [''/b/linuxdeploy_tools'' @ ''/'' @ ''tool'' @ ''.tmp'', ''--appimage-extract''])"
    by (simp add: not_executable_world_def quiet_world_def)
  from chmod_result_not_inspected[of not_executable_world "''/b/linuxdeploy_tools''" "''tool''"
      "Exit 0" "''https://example.org/tool''" empty_state] a b c d
  show ?thesis by blast
qed

subsection \<open>The plugin branch\<close>




subsection \<open>Missing inputs\<close>

text \<open>
  Claim C9. If \<^verbatim>\<open>COMPONENT_NAME\<close>, \<^verbatim>\<open>APP_NAME\<close> or \<^verbatim>\<open>EXECUTABLE_NAME\<close> is not
  defined, the script ends with a fatal error that names a missing variable, in the state
  it started in: no step has run. If the component, display or executable name is not
  given to \<^verbatim>\<open>add_appimage_from_component\<close>, the function ends with a fatal error and
  defines no rule. A plugin type that is not given is \<^verbatim>\<open>qt\<close>, in the script and in the
  function.
\<close>

theorem missing_input_is_fatal:
  "(vs ''COMPONENT_NAME'' = None \<or> vs ''APP_NAME'' = None \<or> vs ''EXECUTABLE_NAME'' = None
      \<longrightarrow> (\<exists>msg. LinuxDeployAppImage w vs env_path s = Inl (msg, s)
             \<and> msg \<in> set [''COMPONENT_NAME must be defined'', ''APP_NAME must be defined'',
                           ''EXECUTABLE_NAME must be defined'']))
   \<and> (ARG_COMPONENT_NAME a = None \<or> ARG_DISPLAY_NAME a = None \<or> ARG_EXECUTABLE_NAME a = None
      \<longrightarrow> (\<exists>msg. add_appimage_from_component p a = Inl msg
             \<and> msg \<in> set [''add_appimage_from_component: COMPONENT_NAME is required.'',
                           ''add_appimage_from_component: DISPLAY_NAME is required.'',
                           ''add_appimage_from_component: EXECUTABLE_NAME is required.'']))
   \<and> (vs ''PLUGIN_TYPE'' = None
      \<longrightarrow> LinuxDeployAppImage w vs env_path s
          = LinuxDeployAppImage w (vs(''PLUGIN_TYPE'' \<mapsto> ''qt'')) env_path s)
   \<and> (ARG_PLUGIN_TYPE a = None
      \<longrightarrow> add_appimage_from_component p a
          = add_appimage_from_component p (a\<lparr>ARG_PLUGIN_TYPE := Some ''qt''\<rparr>))"
proof (intro conjI impI)
  assume "vs ''COMPONENT_NAME'' = None \<or> vs ''APP_NAME'' = None \<or> vs ''EXECUTABLE_NAME'' = None"
  then show "\<exists>msg. LinuxDeployAppImage w vs env_path s = Inl (msg, s)
             \<and> msg \<in> set [''COMPONENT_NAME must be defined'', ''APP_NAME must be defined'',
                           ''EXECUTABLE_NAME must be defined'']"
    by (auto simp: LinuxDeployAppImage_def)
next
  assume "ARG_COMPONENT_NAME a = None \<or> ARG_DISPLAY_NAME a = None \<or> ARG_EXECUTABLE_NAME a = None"
  then show "\<exists>msg. add_appimage_from_component p a = Inl msg
             \<and> msg \<in> set [''add_appimage_from_component: COMPONENT_NAME is required.'',
                           ''add_appimage_from_component: DISPLAY_NAME is required.'',
                           ''add_appimage_from_component: EXECUTABLE_NAME is required.'']"
    by (auto simp: add_appimage_from_component_def split: option.splits)
next
  assume "vs ''PLUGIN_TYPE'' = None"
  then show "LinuxDeployAppImage w vs env_path s
          = LinuxDeployAppImage w (vs(''PLUGIN_TYPE'' \<mapsto> ''qt'')) env_path s"
    by (simp add: LinuxDeployAppImage_def default_PLUGIN_TYPE_def)
next
  assume "ARG_PLUGIN_TYPE a = None"
  then show "add_appimage_from_component p a
          = add_appimage_from_component p (a\<lparr>ARG_PLUGIN_TYPE := Some ''qt''\<rparr>)"
    by (simp add: add_appimage_from_component_def split: option.splits)
qed

theorem missing_input_is_fatal_witness:
  "Map.empty ''COMPONENT_NAME'' = (None :: string option)
   \<and> LinuxDeployAppImage quiet_world Map.empty ''/usr/bin'' empty_state
       = Inl (''COMPONENT_NAME must be defined'', empty_state)
   \<and> ARG_DISPLAY_NAME ((example_args [])\<lparr>ARG_DISPLAY_NAME := None\<rparr>) = None
   \<and> add_appimage_from_component example_project ((example_args [])\<lparr>ARG_DISPLAY_NAME := None\<rparr>)
       = Inl ''add_appimage_from_component: DISPLAY_NAME is required.''
   \<and> ((example_vars ''qt'')(''PLUGIN_TYPE'' := None)) ''PLUGIN_TYPE'' = None
   \<and> LinuxDeployAppImage quiet_world ((example_vars ''qt'')(''PLUGIN_TYPE'' := None)) ''/usr/bin''
         empty_state
       = LinuxDeployAppImage quiet_world
           (((example_vars ''qt'')(''PLUGIN_TYPE'' := None))(''PLUGIN_TYPE'' \<mapsto> ''qt''))
           ''/usr/bin'' empty_state
   \<and> ARG_PLUGIN_TYPE (example_args []) = None
   \<and> add_appimage_from_component example_project (example_args [])
       = add_appimage_from_component example_project
           ((example_args [])\<lparr>ARG_PLUGIN_TYPE := Some ''qt''\<rparr>)"
proof -
  have a: "LinuxDeployAppImage quiet_world Map.empty ''/usr/bin'' empty_state
       = Inl (''COMPONENT_NAME must be defined'', empty_state)"
    by (simp add: LinuxDeployAppImage_def)
  have b: "add_appimage_from_component example_project ((example_args [])\<lparr>ARG_DISPLAY_NAME := None\<rparr>)
       = Inl ''add_appimage_from_component: DISPLAY_NAME is required.''"
    by (simp add: add_appimage_from_component_def example_args_def)
  have c: "ARG_PLUGIN_TYPE (example_args []) = None"
    by (simp add: example_args_def)
  from missing_input_is_fatal[of "(example_vars ''qt'')(''PLUGIN_TYPE'' := None)" quiet_world
      "''/usr/bin''" empty_state "example_args []" example_project] a b c
  show ?thesis by simp
qed

subsection \<open>The plugin flag of the deployment tool\<close>

text \<open>
  With an empty plugin type the flag \<^verbatim>\<open>--plugin\<close> is followed by \<^verbatim>\<open>--output\<close>, and
  with the plugin type \<^verbatim>\<open>qt;gtk\<close> it is followed by two arguments: the reference to the
  variable is not quoted.
\<close>

theorem plugin_flag_counterexample:
  "linuxdeploy_command (example_vars []) ''/usr/bin''
     = [''cmake'', ''-E'', ''env'', ''PATH=/b/linuxdeploy_tools:/usr/bin'',
        ''/b/linuxdeploy_tools/linuxdeploy-x86_64.AppImage'', ''--appdir'', ''/b/AppDir_viewer'',
        ''--plugin'', ''--output'', ''appimage'']
   \<and> linuxdeploy_command (example_vars ''qt;gtk'') ''/usr/bin''
     = [''cmake'', ''-E'', ''env'', ''PATH=/b/linuxdeploy_tools:/usr/bin'',
        ''/b/linuxdeploy_tools/linuxdeploy-x86_64.AppImage'', ''--appdir'', ''/b/AppDir_viewer'',
        ''--plugin'', ''qt'', ''gtk'', ''--output'', ''appimage'']"
  by (simp add: linuxdeploy_command_def example_vars_def var_def unquoted_def cmExpandList_def
      semicolon_def backslash_def LINUXDEPLOY_ENV_def LINUXDEPLOY_DIR_def APPDIR_def)

lemma unquoted_single: "arg \<noteq> [] \<Longrightarrow> semicolon \<notin> set arg \<Longrightarrow> unquoted arg = [arg]"
  by (simp add: unquoted_def cmExpandList_def)

text \<open>
  Claim C10, as the script has it. For every plugin type that is not empty and has no
  semicolon, recognised or not, the command line of the deployment tool ends with
  \<^verbatim>\<open>--plugin <type> --output appimage\<close>, and that command is what the last step runs.
  For a type other than \<^verbatim>\<open>qt\<close> and \<^verbatim>\<open>gtk\<close> the plugin step has ensured nothing.
\<close>

theorem plugin_flag_verbatim:
  assumes "vs ''PLUGIN_TYPE'' = Some plugin" and "plugin \<noteq> []" and "semicolon \<notin> set plugin"
  shows "(\<exists>pre. linuxdeploy_command vs env_path
            = pre @ [''--plugin'', plugin, ''--output'', ''appimage''])
     \<and> trace (final_state (run_linuxdeploy w vs env_path s))
         = trace s @ [Process (linuxdeploy_command vs env_path)
                        (var vs ''CMAKE_CURRENT_BINARY_DIR'')]
     \<and> (plugin \<noteq> ''qt'' \<and> plugin \<noteq> ''gtk'' \<longrightarrow> setup_plugin w vs s = Inr s)"
proof (intro conjI impI)
  have v: "var vs ''PLUGIN_TYPE'' = plugin"
    using assms(1) by (simp add: var_def)
  have "linuxdeploy_command vs env_path
      = (unquoted (var vs ''CMAKE_COMMAND'') @ [''-E'', ''env'']
         @ unquoted (LINUXDEPLOY_ENV (LINUXDEPLOY_DIR vs) env_path (vs ''EXTRA_ENV_VARS''))
         @ unquoted (LINUXDEPLOY_DIR vs @ ''/linuxdeploy-x86_64.AppImage'')
         @ [''--appdir''] @ unquoted (APPDIR vs))
        @ [''--plugin'', plugin, ''--output'', ''appimage'']"
    by (simp add: linuxdeploy_command_def v unquoted_single[OF assms(2,3)])
  then show "\<exists>pre. linuxdeploy_command vs env_path
            = pre @ [''--plugin'', plugin, ''--output'', ''appimage'']"
    by blast
  show "trace (final_state (run_linuxdeploy w vs env_path s))
         = trace s @ [Process (linuxdeploy_command vs env_path)
                        (var vs ''CMAKE_CURRENT_BINARY_DIR'')]"
    by (simp add: run_linuxdeploy_def execute_process_def logged_def final_state_def)
  show "setup_plugin w vs s = Inr s" if "plugin \<noteq> ''qt'' \<and> plugin \<noteq> ''gtk''"
    using that by (simp add: setup_plugin_def v)
qed

theorem plugin_flag_verbatim_witness:
  "example_vars ''wx'' ''PLUGIN_TYPE'' = Some ''wx'' \<and> ''wx'' \<noteq> [] \<and> semicolon \<notin> set ''wx''
   \<and> linuxdeploy_command (example_vars ''wx'') ''/usr/bin''
     = [''cmake'', ''-E'', ''env'', ''PATH=/b/linuxdeploy_tools:/usr/bin'',
        ''/b/linuxdeploy_tools/linuxdeploy-x86_64.AppImage'', ''--appdir'', ''/b/AppDir_viewer'']
       @ [''--plugin'', ''wx'', ''--output'', ''appimage'']
   \<and> setup_plugin quiet_world (example_vars ''wx'') empty_state = Inr empty_state"
proof -
  have a: "example_vars ''wx'' ''PLUGIN_TYPE'' = Some ''wx''"
    by (simp add: example_vars_def)
  have b: "''wx'' \<noteq> []" by simp
  have c: "semicolon \<notin> set ''wx''" by (simp add: semicolon_def)
  have d: "linuxdeploy_command (example_vars ''wx'') ''/usr/bin''
     = [''cmake'', ''-E'', ''env'', ''PATH=/b/linuxdeploy_tools:/usr/bin'',
        ''/b/linuxdeploy_tools/linuxdeploy-x86_64.AppImage'', ''--appdir'', ''/b/AppDir_viewer'']
       @ [''--plugin'', ''wx'', ''--output'', ''appimage'']"
    by (simp add: linuxdeploy_command_def example_vars_def var_def unquoted_def cmExpandList_def
      semicolon_def backslash_def LINUXDEPLOY_ENV_def LINUXDEPLOY_DIR_def APPDIR_def)
  from plugin_flag_verbatim[of "example_vars ''wx''" "''wx''" "''/usr/bin''" quiet_world
      empty_state] a b c d
  show ?thesis by simp
qed


subsection \<open>The elements of a list string\<close>

lemma plain_simps [simp]:
  "plain []" "plain (c # cs) = (\<not> list_special c \<and> plain cs)"
  "plain (xs @ ys) = (plain xs \<and> plain ys)"
  by (simp_all add: plain_def)

lemma plain_drop: "plain s \<Longrightarrow> plain (drop n s)"
  by (simp add: plain_def list_all_iff) (meson in_set_dropD)

lemma plain_no_semicolon: "plain s \<Longrightarrow> semicolon \<notin> set s"
  by (auto simp: plain_def list_all_iff list_special_def)

lemma loop_plain:
  "plain x \<Longrightarrow> cmExpandList_loop e 0 acc (x @ rest) = cmExpandList_loop e 0 (acc @ x) rest"
proof (induction x arbitrary: acc)
  case Nil
  then show ?case by simp
next
  case (Cons c cs)
  then have "\<not> list_special c" and "plain cs" by simp_all
  then show ?case
    using Cons.IH[of "acc @ [c]"] by (simp add: list_special_def)
qed

lemma loop_separator:
  "cmExpandList_loop e 0 acc (semicolon # rest)
     = (if acc \<noteq> [] \<or> e then [acc] else []) @ cmExpandList_loop e 0 [] rest"
  by (simp add: semicolon_def backslash_def)

lemma loop_escaped:
  "cmExpandList_loop e 0 acc (backslash # semicolon # rest)
     = cmExpandList_loop e 0 (acc @ [semicolon]) rest"
  by simp

lemma string_REPLACE_hit:
  "m \<noteq> [] \<Longrightarrow> prefix m (c # cs) \<Longrightarrow>
   string_REPLACE m r (c # cs) = r @ string_REPLACE m r (drop (length m) (c # cs))"
  by simp

lemma string_REPLACE_miss:
  "\<not> (m \<noteq> [] \<and> prefix m (c # cs)) \<Longrightarrow>
   string_REPLACE m r (c # cs) = c # string_REPLACE m r cs"
  by auto

lemma loop_replaced:
  "plain v \<Longrightarrow>
   cmExpandList_loop e 0 acc (string_REPLACE m [backslash, semicolon] v @ rest)
     = cmExpandList_loop e 0 (acc @ string_REPLACE m [semicolon] v) rest"
proof (induction m "[backslash, semicolon]" v arbitrary: acc rule: string_REPLACE.induct)
  case (1 m)
  then show ?case by simp
next
  case (2 m c cs)
  show ?case
  proof (cases "m \<noteq> [] \<and> prefix m (c # cs)")
    case True
    have p: "plain (drop (length m) (c # cs))"
      using "2.prems" by (rule plain_drop)
    from True have h: "m \<noteq> []" "prefix m (c # cs)" by simp_all
    note hit = string_REPLACE_hit[OF h]
    have "cmExpandList_loop e 0 acc (string_REPLACE m [backslash, semicolon] (c # cs) @ rest)
        = cmExpandList_loop e 0 acc (backslash # semicolon #
            (string_REPLACE m [backslash, semicolon] (drop (length m) (c # cs)) @ rest))"
      by (simp add: hit del: string_REPLACE.simps cmExpandList_loop.simps)
    also have "\<dots> = cmExpandList_loop e 0 (acc @ [semicolon])
            (string_REPLACE m [backslash, semicolon] (drop (length m) (c # cs)) @ rest)"
      by (rule loop_escaped)
    also have "\<dots> = cmExpandList_loop e 0
            ((acc @ [semicolon]) @ string_REPLACE m [semicolon] (drop (length m) (c # cs))) rest"
      using "2.hyps"(1)[OF True p] .
    also have "\<dots> = cmExpandList_loop e 0 (acc @ string_REPLACE m [semicolon] (c # cs)) rest"
      by (simp add: hit del: string_REPLACE.simps cmExpandList_loop.simps)
    finally show ?thesis .
  next
    case False
    from "2.prems" have c: "\<not> list_special c" and p: "plain cs" by simp_all
    have "cmExpandList_loop e 0 acc (string_REPLACE m [backslash, semicolon] (c # cs) @ rest)
        = cmExpandList_loop e 0 acc (c #
            (string_REPLACE m [backslash, semicolon] cs @ rest))"
      by (simp add: string_REPLACE_miss[OF False] del: string_REPLACE.simps cmExpandList_loop.simps)
    also have "\<dots> = cmExpandList_loop e 0 (acc @ [c])
            (string_REPLACE m [backslash, semicolon] cs @ rest)"
      using c by (simp add: list_special_def)
    also have "\<dots> = cmExpandList_loop e 0 ((acc @ [c]) @ string_REPLACE m [semicolon] cs) rest"
      using "2.hyps"(2)[OF False p] .
    also have "\<dots> = cmExpandList_loop e 0 (acc @ string_REPLACE m [semicolon] (c # cs)) rest"
      by (simp add: string_REPLACE_miss[OF False] del: string_REPLACE.simps cmExpandList_loop.simps)
    finally show ?thesis .
  qed
qed

lemma string_REPLACE_nonempty: "v \<noteq> [] \<Longrightarrow> r \<noteq> [] \<Longrightarrow> string_REPLACE m r v \<noteq> []"
  by (cases v) auto

lemma foldl_list_APPEND:
  "base \<noteq> [] \<Longrightarrow>
   foldl (\<lambda>env v. list_APPEND env (f v)) base es = base @ concat (map (\<lambda>v. semicolon # f v) es)"
  by (induction es arbitrary: base) (simp_all add: list_APPEND_def)

lemma loop_elements:
  assumes "\<forall>v\<in>set es. v \<noteq> [] \<and> plain v"
  shows "cmExpandList_loop False 0 acc (concat (map (\<lambda>v. semicolon # unescape_ENV_VAR v) es))
     = (if acc \<noteq> [] then [acc] else []) @ map (string_REPLACE ''<SEMICOLON>'' [semicolon]) es"
  using assms
proof (induction es arbitrary: acc)
  case Nil
  then show ?case by simp
next
  case (Cons v vs)
  then have v: "v \<noteq> []" "plain v" and vs: "\<forall>v\<in>set vs. v \<noteq> [] \<and> plain v" by simp_all
  have n: "string_REPLACE ''<SEMICOLON>'' [semicolon] v \<noteq> []"
    using v(1) by (rule string_REPLACE_nonempty) simp
  have "cmExpandList_loop False 0 acc
          (concat (map (\<lambda>v. semicolon # unescape_ENV_VAR v) (v # vs)))
      = (if acc \<noteq> [] then [acc] else [])
        @ cmExpandList_loop False 0 []
            (unescape_ENV_VAR v @ concat (map (\<lambda>v. semicolon # unescape_ENV_VAR v) vs))"
    by (simp add: loop_separator del: cmExpandList_loop.simps)
  also have "cmExpandList_loop False 0 []
            (unescape_ENV_VAR v @ concat (map (\<lambda>v. semicolon # unescape_ENV_VAR v) vs))
      = cmExpandList_loop False 0 (string_REPLACE ''<SEMICOLON>'' [semicolon] v)
            (concat (map (\<lambda>v. semicolon # unescape_ENV_VAR v) vs))"
    unfolding unescape_ENV_VAR_def using loop_replaced[OF v(2), of False "[]"] by simp
  also have "\<dots> = [string_REPLACE ''<SEMICOLON>'' [semicolon] v]
        @ map (string_REPLACE ''<SEMICOLON>'' [semicolon]) vs"
    using Cons.IH[OF vs] n by simp
  finally show ?case by simp
qed

lemma loop_join:
  assumes "\<forall>v\<in>set (v # vs). plain v"
  shows "cmExpandList_loop True 0 acc (cmJoin (v # vs) [semicolon]) = (acc @ v) # vs"
  using assms
proof (induction vs arbitrary: v acc)
  case Nil
  then show ?case using loop_plain[of v True acc "[]"] by simp
next
  case (Cons w ws)
  then have v: "plain v" and r: "\<forall>v\<in>set (w # ws). plain v" by simp_all
  have "cmExpandList_loop True 0 acc (cmJoin (v # w # ws) [semicolon])
      = cmExpandList_loop True 0 (acc @ v) (semicolon # cmJoin (w # ws) [semicolon])"
    using loop_plain[OF v] by simp
  also have "\<dots> = (acc @ v) # cmExpandList_loop True 0 [] (cmJoin (w # ws) [semicolon])"
    by (simp add: loop_separator del: cmExpandList_loop.simps)
  also have "\<dots> = (acc @ v) # w # ws"
    using Cons.IH[OF r, of "[]"] by simp
  finally show ?case .
qed

lemma cmJoin_semicolon:
  "semicolon \<in> set (cmJoin (v # w # ws) [semicolon])"
  by simp

lemma foreach_join:
  assumes "\<forall>v\<in>set vars. v \<noteq> [] \<and> plain v" and "vars \<noteq> []"
  shows "foreach_IN_LISTS (cmJoin vars [semicolon]) = vars"
proof (cases vars)
  case Nil
  with assms(2) show ?thesis by simp
next
  case (Cons v vs)
  show ?thesis
  proof (cases vs)
    case Nil
    with Cons assms(1) show ?thesis
      by (simp add: foreach_IN_LISTS_def cmExpandList_def plain_no_semicolon)
  next
    case (Cons w ws)
    with \<open>vars = v # vs\<close> assms(1) have p: "\<forall>x\<in>set (v # w # ws). plain x" and "v \<noteq> []"
      by simp_all
    then show ?thesis
      using loop_join[OF p, of "[]"] Cons \<open>vars = v # vs\<close>
      by (simp add: foreach_IN_LISTS_def cmExpandList_def del: cmExpandList_loop.simps)
  qed
qed

lemma cmJoin_empty_iff:
  "\<forall>v\<in>set vars. v \<noteq> [] \<Longrightarrow> (cmJoin vars glue = []) = (vars = [])"
  by (induction vars glue rule: cmJoin.induct) auto

lemma unquoted_environment:
  assumes "plain base" and "base \<noteq> []" and "\<forall>v\<in>set es. v \<noteq> [] \<and> plain v"
  shows "unquoted (base @ concat (map (\<lambda>v. semicolon # unescape_ENV_VAR v) es))
     = base # map (string_REPLACE ''<SEMICOLON>'' [semicolon]) es"
proof (cases es)
  case Nil
  with assms(1,2) show ?thesis
    by (simp add: unquoted_def cmExpandList_def plain_no_semicolon)
next
  case (Cons v vs)
  have "cmExpandList_loop False 0 []
          (base @ concat (map (\<lambda>v. semicolon # unescape_ENV_VAR v) es))
      = cmExpandList_loop False 0 base (concat (map (\<lambda>v. semicolon # unescape_ENV_VAR v) es))"
    using loop_plain[OF assms(1), of False "[]"] by simp
  also have "\<dots> = base # map (string_REPLACE ''<SEMICOLON>'' [semicolon]) es"
    using loop_elements[OF assms(3), of base] assms(2) by simp
  finally show ?thesis
    using Cons assms(2) by (simp add: unquoted_def cmExpandList_def del: cmExpandList_loop.simps)
qed

lemma LINUXDEPLOY_ENV_elements:
  assumes "plain dir" and "plain env_path" and "\<forall>v\<in>set vars. v \<noteq> [] \<and> plain v"
  shows "unquoted (LINUXDEPLOY_ENV dir env_path (Some (cmJoin vars [semicolon])))
     = (''PATH='' @ dir @ '':'' @ env_path) # map (string_REPLACE ''<SEMICOLON>'' [semicolon]) vars"
proof -
  let ?base = "''PATH='' @ dir @ '':'' @ env_path"
  have b: "plain ?base" "?base \<noteq> []"
    using assms(1,2) by (simp_all add: list_special_def semicolon_def backslash_def)
  show ?thesis
  proof (cases "vars = []")
    case True
    then show ?thesis
      using unquoted_environment[OF b, of "[]"] by (simp add: LINUXDEPLOY_ENV_def)
  next
    case False
    then have j: "cmJoin vars [semicolon] \<noteq> []"
      using assms(3) by (simp add: cmJoin_empty_iff)
    have f: "foreach_IN_LISTS (cmJoin vars [semicolon]) = vars"
      using assms(3) False by (rule foreach_join)
    have "LINUXDEPLOY_ENV dir env_path (Some (cmJoin vars [semicolon]))
        = ?base @ concat (map (\<lambda>v. semicolon # unescape_ENV_VAR v) vars)"
      using j b(2) by (simp add: LINUXDEPLOY_ENV_def f foldl_list_APPEND del: foldl.simps)
    then show ?thesis
      using unquoted_environment[OF b assms(3)] by simp
  qed
qed

lemma LINUXDEPLOY_ENV_alone:
  assumes "plain dir" and "plain env_path"
  shows "unquoted (LINUXDEPLOY_ENV dir env_path None) = [''PATH='' @ dir @ '':'' @ env_path]"
proof -
  let ?base = "''PATH='' @ dir @ '':'' @ env_path"
  have b: "plain ?base" "?base \<noteq> []"
    using assms(1,2) by (simp_all add: list_special_def semicolon_def backslash_def)
  show ?thesis
    using unquoted_environment[OF b, of "[]"] by (simp add: LINUXDEPLOY_ENV_def)
qed

text \<open>
  An inherited \<^verbatim>\<open>PATH\<close> with a semicolon in it is cut at the semicolon: the first
  entry of the environment is not the whole PATH entry, and the rest of the inherited
  \<^verbatim>\<open>PATH\<close> is an entry of its own.
\<close>

theorem environment_order_counterexample:
  "unquoted (LINUXDEPLOY_ENV ''/x'' ''/opt/a;b/bin:/usr/bin'' None)
     = [''PATH=/x:/opt/a'', ''b/bin:/usr/bin'']
   \<and> unquoted (LINUXDEPLOY_ENV ''/x'' ''/opt/a;b/bin:/usr/bin'' (Some ''FOO=1;BAR=2''))
     = [''PATH=/x:/opt/a'', ''b/bin:/usr/bin'', ''FOO=1'', ''BAR=2'']"
  by (simp add: LINUXDEPLOY_ENV_def unquoted_def cmExpandList_def foreach_IN_LISTS_def
      list_APPEND_def unescape_ENV_VAR_def semicolon_def backslash_def)

text \<open>
  Claim C4, as the script has it. When the tool directory and the inherited \<^verbatim>\<open>PATH\<close>
  have no character special to lists (semicolon, backslash, square brackets), and the
  extra variables are not empty and have none either, the environment of the deployment
  tool is the entry \<^verbatim>\<open>PATH=<dir>:<inherited PATH>\<close> followed by the extra variables in
  the order given, each with the token \<^verbatim>\<open><SEMICOLON>\<close> replaced by a semicolon. With no
  extra variables, or none defined, it is the PATH entry alone.
\<close>

theorem environment_order:
  assumes "plain dir" and "plain env_path" and "\<forall>v\<in>set vars. v \<noteq> [] \<and> plain v"
  shows "unquoted (LINUXDEPLOY_ENV dir env_path (Some (cmJoin vars [semicolon])))
           = (''PATH='' @ dir @ '':'' @ env_path)
             # map (string_REPLACE ''<SEMICOLON>'' [semicolon]) vars
       \<and> unquoted (LINUXDEPLOY_ENV dir env_path (Some [])) = [''PATH='' @ dir @ '':'' @ env_path]
       \<and> unquoted (LINUXDEPLOY_ENV dir env_path None) = [''PATH='' @ dir @ '':'' @ env_path]"
  using LINUXDEPLOY_ENV_elements[OF assms] LINUXDEPLOY_ENV_elements[OF assms(1,2), of "[]"]
    LINUXDEPLOY_ENV_alone[OF assms(1,2)]
  by simp

theorem environment_order_witness:
  "plain ''/x'' \<and> plain ''/usr/bin'' \<and> list_all (\<lambda>v. v \<noteq> [] \<and> plain v) [''FOO=a'', ''BAR=c'']
   \<and> unquoted (LINUXDEPLOY_ENV ''/x'' ''/usr/bin'' (Some (cmJoin [''FOO=a'', ''BAR=c''] [semicolon])))
       = [''PATH=/x:/usr/bin'', ''FOO=a'', ''BAR=c'']
   \<and> unquoted (LINUXDEPLOY_ENV ''/x'' ''/usr/bin'' None) = [''PATH=/x:/usr/bin'']"
proof -
  have a: "plain ''/x''" and b: "plain ''/usr/bin''"
    by (simp_all add: list_special_def semicolon_def backslash_def)
  have c: "\<forall>v\<in>set [''FOO=a'', ''BAR=c'']. v \<noteq> [] \<and> plain v"
    by (simp add: list_special_def semicolon_def backslash_def)
  from environment_order[OF a b c] a b c show ?thesis
    by simp
qed

subsection \<open>The round trip of the extra variables\<close>














lemma shell_word_append: "shell_word (a @ b) = shell_word a @ shell_word b"
  by (simp add: shell_word_def)




lemma simple_no_dquote: "simple s \<Longrightarrow> dquote \<notin> set s"
  by (simp add: simple_def)




end
